theory Spec2Isabelle
  imports Complex_Main "HOL-Library.Log_Nat"
begin

section \<open>JavaScript numbers\<close>

text \<open>
  A JavaScript number is an IEEE 754 double: a finite value (a rational), one of the two
  infinities (\<open>Infinity True\<close> is the negative one) or \<^verbatim>\<open>NaN\<close>. The two zeros are not
  told apart: both are falsy, they are \<^verbatim>\<open>===\<close>, and \<^verbatim>\<open>JSON.stringify\<close> writes both
  as \<^verbatim>\<open>0\<close>.
\<close>

datatype dnum = Finite rat | Infinity bool | NaN

text \<open>Rounding to an integer, a tie going to the even neighbour.\<close>

definition round_half_even :: "rat \<Rightarrow> int" where
  "round_half_even x =
     (let f = \<lfloor>x\<rfloor>; d = x - of_int f
      in if d < 1 / 2 then f else if 1 / 2 < d then f + 1 else if even f then f else f + 1)"

text \<open>
  For \<open>q > 0\<close>, the exponent \<open>e\<close> with \<open>2 powi e \<le> q < 2 powi (e + 1)\<close>: the quotient of
  a numerator of \<open>n\<close> bits and a denominator of \<open>d\<close> bits lies between
  \<open>2 powi (n - d - 1)\<close> and \<open>2 powi (n - d + 1)\<close>.
\<close>

definition floor_log2 :: "rat \<Rightarrow> int" where
  "floor_log2 q =
     (let c = bitlen (fst (quotient_of q)) - bitlen (snd (quotient_of q))
      in if 2 powi c \<le> q then c else c - 1)"

text \<open>
  The double nearest to a rational (round to nearest, ties to even): 53 significant
  bits, the unit in the last place never below \<open>2 powi - 1074\<close> (subnormal numbers), and
  an infinity once the rounded magnitude reaches \<open>2 powi 1024\<close>. Every arithmetic
  operation of JavaScript on finite numbers returns the exact result rounded this way.
\<close>

definition round_double :: "rat \<Rightarrow> dnum" where
  "round_double q =
     (if q = 0 then Finite 0
      else (let e = max (floor_log2 \<bar>q\<bar> - 52) (- 1074);
                r = of_int (round_half_even (\<bar>q\<bar> / 2 powi e)) * 2 powi e
            in if 2 powi 1024 \<le> r then Infinity (q < 0) else Finite (sgn q * r)))"

text \<open>\<^verbatim>\<open>a + b\<close> on two numbers.\<close>

fun dadd :: "dnum \<Rightarrow> dnum \<Rightarrow> dnum" where
  "dadd (Finite a) (Finite b) = round_double (a + b)"
| "dadd (Infinity s) (Infinity t) = (if s = t then Infinity s else NaN)"
| "dadd (Infinity s) (Finite b) = Infinity s"
| "dadd (Finite a) (Infinity t) = Infinity t"
| "dadd a b = NaN"

text \<open>
  \<^verbatim>\<open>a / n\<close> for a number \<open>a\<close> and the length \<open>n\<close> of an array (below \<open>2 ^ 32\<close>, so
  exactly a double).
\<close>

fun ddiv :: "dnum \<Rightarrow> nat \<Rightarrow> dnum" where
  "ddiv (Finite a) n =
     (if n = 0 then (if a = 0 then NaN else Infinity (a < 0))
      else round_double (a / of_nat n))"
| "ddiv (Infinity s) n = Infinity s"
| "ddiv NaN n = NaN"

section \<open>JavaScript values\<close>

text \<open>
  The server (\<^verbatim>\<open>src/server.js\<close>) is untyped: request bodies are whatever
  \<^verbatim>\<open>express.json()\<close> parsed, and the stored entities are plain objects read from
  \<^verbatim>\<open>db.json\<close>. Values are therefore modelled dynamically, over the kind \<open>'n\<close> of
  number they hold. An object is the list of its own properties in insertion order.
  \<open>JUndefined\<close> is what reading an absent property gives; it never occurs inside
  parsed JSON.

  \<^item> \<open>json\<close>, over the rationals, is a value as \<^verbatim>\<open>JSON.stringify\<close> writes it: what
    \<^verbatim>\<open>db.json\<close> holds and what a reply carries. Its numbers are finite doubles.
  \<^item> \<open>runtime\<close>, over \<open>dnum\<close>, is a value inside a running handler. A number of the
    request body too large for a double (\<^verbatim>\<open>1e400\<close>) is parsed to an infinity.
\<close>

datatype 'n jsval =
    JUndefined
  | JNull
  | JBool bool
  | JNum 'n
  | JStr string
  | JArr "'n jsval list"
  | JObj "(string \<times> 'n jsval) list"

type_synonym 'n jsobj = "(string \<times> 'n jsval) list"

type_synonym json = "rat jsval"

type_synonym runtime = "dnum jsval"

text \<open>
  \<^verbatim>\<open>db.read()\<close> parses the file: every stored value becomes the same value in memory.
\<close>

definition parse :: "json \<Rightarrow> runtime" where
  "parse = map_jsval Finite"

text \<open>
  \<^verbatim>\<open>JSON.stringify\<close>, as \<^verbatim>\<open>res.json\<close> and \<^verbatim>\<open>db.write()\<close> apply it to a value that came
  out of \<^verbatim>\<open>JSON.parse\<close>: an infinity or \<^verbatim>\<open>NaN\<close> is written as \<^verbatim>\<open>null\<close>, at any
  depth, and nothing else changes.
\<close>

fun number_json :: "dnum \<Rightarrow> json" where
  "number_json (Finite q) = JNum q"
| "number_json n = JNull"

fun written :: "runtime \<Rightarrow> json" where
  "written JUndefined = JUndefined"
| "written JNull = JNull"
| "written (JBool b) = JBool b"
| "written (JNum n) = number_json n"
| "written (JStr s) = JStr s"
| "written (JArr xs) = JArr (map written xs)"
| "written (JObj ps) = JObj (map (map_prod id written) ps)"

text \<open>\<^verbatim>\<open>obj.k\<close> for one of the property names the handlers read.\<close>

definition get_prop :: "'n jsobj \<Rightarrow> string \<Rightarrow> 'n jsval" where
  "get_prop obj k = (case map_of obj k of None \<Rightarrow> JUndefined | Some v \<Rightarrow> v)"

text \<open>\<^verbatim>\<open>obj.k = v\<close> on an own data property: overwritten in place, or appended.\<close>

fun set_prop :: "'n jsobj \<Rightarrow> string \<Rightarrow> 'n jsval \<Rightarrow> 'n jsobj" where
  "set_prop [] k v = [(k, v)]"
| "set_prop ((k', v') # ps) k v =
     (if k' = k then (k, v) # ps else (k', v') # set_prop ps k v)"

text \<open>
  The truthiness tested by \<^verbatim>\<open>!x\<close>, \<^verbatim>\<open>if (x)\<close> and \<^verbatim>\<open>x || y\<close>: \<^verbatim>\<open>undefined\<close>,
  \<^verbatim>\<open>null\<close>, \<^verbatim>\<open>false\<close>, \<^verbatim>\<open>0\<close>, \<^verbatim>\<open>NaN\<close> and the empty string are falsy, everything
  else (the infinities, every array and every object included) is truthy.
\<close>

fun truthy :: "runtime \<Rightarrow> bool" where
  "truthy JUndefined = False"
| "truthy JNull = False"
| "truthy (JBool b) = b"
| "truthy (JNum n) = (n \<noteq> Finite 0 \<and> n \<noteq> NaN)"
| "truthy (JStr s) = (s \<noteq> [])"
| "truthy (JArr xs) = True"
| "truthy (JObj ps) = True"

text \<open>
  \<^verbatim>\<open>a === b\<close>. Every comparison in the server has a value read from the file on one
  side and a value of the request on the other, so two arrays or two objects are never
  the same reference and compare unequal whatever they hold. \<^verbatim>\<open>NaN\<close> equals nothing.
\<close>

fun strict_eq :: "runtime \<Rightarrow> runtime \<Rightarrow> bool" where
  "strict_eq JUndefined JUndefined = True"
| "strict_eq JNull JNull = True"
| "strict_eq (JBool a) (JBool b) = (a = b)"
| "strict_eq (JNum a) (JNum b) = (a = b \<and> a \<noteq> NaN)"
| "strict_eq (JStr a) (JStr b) = (a = b)"
| "strict_eq a b = False"

text \<open>
  An object literal as \<^verbatim>\<open>JSON.stringify\<close> writes it, to the file and to the response:
  a property whose value is \<^verbatim>\<open>undefined\<close> is left out.
\<close>

definition literal :: "'n jsobj \<Rightarrow> 'n jsobj" where
  "literal ps = filter (\<lambda>(k, v). v \<noteq> JUndefined) ps"

text \<open>
  \<^verbatim>\<open>Object.assign(target, source)\<close> performs \<^verbatim>\<open>target[k] = v\<close> for every own property of
  the source, in order. The assignment is an ordinary property write, so for the key
  \<^verbatim>\<open>__proto__\<close> (which \<^verbatim>\<open>JSON.parse\<close> creates as an own property of the body) it
  reaches the inherited setter unless the target has an own property of that name: the
  setter changes the prototype of the in-memory object, and no own property is created.
  The prototype is not part of what \<^verbatim>\<open>JSON.stringify\<close> writes.
\<close>

definition assign_prop :: "'n jsobj \<Rightarrow> string \<times> 'n jsval \<Rightarrow> 'n jsobj" where
  "assign_prop target kv =
     (if fst kv = ''__proto__'' \<and> map_of target ''__proto__'' = None then target
      else set_prop target (fst kv) (snd kv))"

definition object_assign :: "'n jsobj \<Rightarrow> 'n jsobj \<Rightarrow> 'n jsobj" where
  "object_assign target source = foldl assign_prop target source"

text \<open>
  \<^verbatim>\<open>const x = xs.find(p)\<close> followed by a mutation of \<open>x\<close> changes the first element
  of the array that satisfies \<open>p\<close>; \<open>replace_first\<close> writes the mutated object back
  at that place.
\<close>

fun replace_first :: "('a \<Rightarrow> bool) \<Rightarrow> 'a \<Rightarrow> 'a list \<Rightarrow> 'a list" where
  "replace_first P y [] = []"
| "replace_first P y (x # xs) = (if P x then y # xs else x # replace_first P y xs)"

section \<open>The store and the replies\<close>

text \<open>
  The document \<^verbatim>\<open>{courses, users, communityNotes, analytics}\<close>. Every handler starts
  with \<^verbatim>\<open>await db.read()\<close>, which reloads the document from the file, so the state
  between two requests is the content of the file: a handler that returns or throws
  before \<^verbatim>\<open>persist()\<close> leaves it as it was. The file is written by the server only,
  through \<^verbatim>\<open>JSON.stringify\<close>, so its values are of type \<open>json\<close>. The three collections
  hold objects.

  A handler reads a stored value through \<open>parse\<close>. Where it assigns a value of the
  request to a stored object, the model stores that value as \<open>written\<close> gives it, which
  is how it reaches the reply and the file.
\<close>

record store =
  courses :: "rat jsobj list"
  users :: "rat jsobj list"
  communityNotes :: "rat jsobj list"
  analytics :: json

text \<open>
  \<open>Reply s b\<close> is \<^verbatim>\<open>res.status(s).json(b)\<close> (\<^verbatim>\<open>res.json(b)\<close> has status 200).
  \<open>Threw\<close> is a handler whose promise is rejected by a \<^verbatim>\<open>TypeError\<close>: nothing is
  persisted and no reply is written.
\<close>

datatype outcome = Reply nat json | Threw

definition error_body :: "string \<Rightarrow> json" where
  "error_body msg = JObj [(''error'', JStr msg)]"

text \<open>The predicate \<^verbatim>\<open>x => x.id === id\<close> for the \<^verbatim>\<open>:id\<close> of the route, a string.\<close>

definition has_id :: "string \<Rightarrow> rat jsobj \<Rightarrow> bool" where
  "has_id ident x = strict_eq (parse (get_prop x ''id'')) (JStr ident)"

section \<open>Handlers\<close>

subsection \<open>GET /api/data\<close>

text \<open>No value of a request is involved: the reply carries stored values as they are.\<close>

definition public_user :: "rat jsobj \<Rightarrow> json" where
  "public_user u =
     JObj (literal [(''id'', get_prop u ''id''), (''name'', get_prop u ''name''),
                    (''email'', get_prop u ''email'')])"

definition get_data :: "store \<Rightarrow> outcome \<times> store" where
  "get_data st =
     (Reply 200 (JObj (literal
        [(''courses'', JArr (map JObj (courses st))),
         (''communityNotes'', JArr (map JObj (communityNotes st))),
         (''users'', JArr (map public_user (users st))),
         (''analytics'', analytics st)])), st)"

subsection \<open>PUT /api/courses/:id\<close>

definition put_course :: "store \<Rightarrow> string \<Rightarrow> dnum jsobj \<Rightarrow> outcome \<times> store" where
  "put_course st ident body =
     (case find (has_id ident) (courses st) of
        None \<Rightarrow> (Reply 404 (error_body ''Not found''), st)
      | Some course \<Rightarrow>
          (let course' = object_assign course (map (map_prod id written) body)
           in (Reply 200 (JObj course'),
               st\<lparr>courses := replace_first (has_id ident) course' (courses st)\<rparr>)))"

subsection \<open>POST /api/notes\<close>

text \<open>
  \<open>nid\<close> is the string \<^verbatim>\<open>nanoid()\<close> returns and \<open>now\<close> the string
  \<^verbatim>\<open>new Date().toISOString()\<close> returns.
\<close>

definition post_note ::
  "store \<Rightarrow> string \<Rightarrow> string \<Rightarrow> dnum jsobj \<Rightarrow> outcome \<times> store" where
  "post_note st nid now body =
     (let courseId = get_prop body ''courseId''; title = get_prop body ''title'';
          content = get_prop body ''content''; authorId = get_prop body ''authorId''
      in if \<not> truthy courseId \<or> \<not> truthy title \<or> \<not> truthy content \<or> \<not> truthy authorId
         then (Reply 400 (error_body ''Missing fields''), st)
         else (case find (\<lambda>u. strict_eq (parse (get_prop u ''id'')) authorId) (users st) of
                 None \<Rightarrow> (Reply 400 (error_body ''Invalid author''), st)
               | Some user \<Rightarrow>
                   (let note = literal
                          [(''id'', JStr nid), (''courseId'', written courseId),
                           (''title'', written title), (''content'', written content),
                           (''author'', get_prop user ''name''),
                           (''authorId'', written authorId), (''createdAt'', JStr now),
                           (''downloads'', JNum 0), (''ratings'', JArr []),
                           (''averageRating'', JNum 0)]
                    in (Reply 200 (JObj note),
                        st\<lparr>communityNotes := communityNotes st @ [note]\<rparr>))))"

subsection \<open>PUT /api/notes/:id\<close>

definition put_note :: "store \<Rightarrow> string \<Rightarrow> dnum jsobj \<Rightarrow> outcome \<times> store" where
  "put_note st ident body =
     (let content = get_prop body ''content''; title = get_prop body ''title'';
          authorId = get_prop body ''authorId''
      in case find (has_id ident) (communityNotes st) of
           None \<Rightarrow> (Reply 404 (error_body ''Note not found''), st)
         | Some note \<Rightarrow>
             if \<not> strict_eq (parse (get_prop note ''authorId'')) authorId
                \<and> \<not> truthy (get_prop body ''forceDev'')
             then (Reply 403 (error_body ''Not allowed''), st)
             else (let note1 = (if truthy title then set_prop note ''title'' (written title)
                                else note);
                       note2 = (if truthy content
                                then set_prop note1 ''content'' (written content)
                                else note1)
                   in (Reply 200 (JObj note2),
                       st\<lparr>communityNotes :=
                            replace_first (has_id ident) note2 (communityNotes st)\<rparr>)))"

subsection \<open>DELETE /api/notes/:id\<close>

definition delete_note :: "store \<Rightarrow> string \<Rightarrow> dnum jsobj \<Rightarrow> outcome \<times> store" where
  "delete_note st ident body =
     (let authorId = get_prop body ''authorId''; forceDev = get_prop body ''forceDev''
      in case find (has_id ident) (communityNotes st) of
           None \<Rightarrow> (Reply 404 (error_body ''Not found''), st)
         | Some note \<Rightarrow>
             if \<not> truthy forceDev \<and> \<not> strict_eq (parse (get_prop note ''authorId'')) authorId
             then (Reply 403 (error_body ''Not allowed''), st)
             else (Reply 200 (JObj [(''success'', JBool True)]),
                   st\<lparr>communityNotes :=
                        filter (\<lambda>n. \<not> has_id ident n) (communityNotes st)\<rparr>))"

subsection \<open>POST /api/notes/:id/rate\<close>

text \<open>
  \<^verbatim>\<open>r.k\<close> for an element \<open>r\<close> of the ratings array and \<open>k\<close> one of \<^verbatim>\<open>userId\<close>,
  \<^verbatim>\<open>rating\<close>: a \<^verbatim>\<open>TypeError\<close> (\<open>None\<close>) on \<^verbatim>\<open>null\<close>, \<^verbatim>\<open>undefined\<close> on any
  other element that is not an object.
\<close>

fun elem_prop :: "'n jsval \<Rightarrow> string \<Rightarrow> 'n jsval option" where
  "elem_prop JUndefined k = None"
| "elem_prop JNull k = None"
| "elem_prop (JObj ps) k = Some (get_prop ps k)"
| "elem_prop v k = Some JUndefined"

fun set_rating :: "'n jsval \<Rightarrow> 'n jsval \<Rightarrow> 'n jsval" where
  "set_rating (JObj ps) v = JObj (set_prop ps ''rating'' v)"
| "set_rating r v = r"

text \<open>
  Lines 174 and 175: \<^verbatim>\<open>find\<close> walks the array up to the first entry whose
  \<^verbatim>\<open>userId\<close> passes the test \<open>same\<close> (in the handler, \<^verbatim>\<open>=== userId\<close>); that
  entry's \<^verbatim>\<open>rating\<close> is overwritten, and with no such entry \<^verbatim>\<open>{userId, rating}\<close> is
  pushed. The handler calls it with a truthy \<open>u\<close>, so the entry found is an object.
  \<open>None\<close> is the \<^verbatim>\<open>TypeError\<close> of a \<^verbatim>\<open>null\<close> entry met on the way.
\<close>

fun upsert_rating ::
  "('n jsval \<Rightarrow> bool) \<Rightarrow> 'n jsval \<Rightarrow> 'n jsval \<Rightarrow> 'n jsval list \<Rightarrow> 'n jsval list option" where
  "upsert_rating same u v [] = Some [JObj [(''userId'', u), (''rating'', v)]]"
| "upsert_rating same u v (r # rs) =
     (case elem_prop r ''userId'' of
        None \<Rightarrow> None
      | Some w \<Rightarrow>
          if same w then Some (set_rating r v # rs)
          else map_option ((#) r) (upsert_rating same u v rs))"

text \<open>The values \<^verbatim>\<open>r.rating\<close> that \<^verbatim>\<open>reduce\<close> reads, in order.\<close>

fun rating_values :: "'n jsval list \<Rightarrow> 'n jsval list option" where
  "rating_values [] = Some []"
| "rating_values (r # rs) =
     (case elem_prop r ''rating'' of
        None \<Rightarrow> None
      | Some v \<Rightarrow> map_option ((#) v) (rating_values rs))"

text \<open>
  The number that \<^verbatim>\<open>+\<close> makes of an operand it adds numerically. A string, an array
  or an object (\<open>None\<close>) turns \<^verbatim>\<open>+\<close> into a string concatenation.
\<close>

fun to_number :: "runtime \<Rightarrow> dnum option" where
  "to_number (JNum n) = Some n"
| "to_number (JBool b) = Some (Finite (if b then 1 else 0))"
| "to_number JNull = Some (Finite 0)"
| "to_number JUndefined = Some NaN"
| "to_number v = None"

fun to_numbers :: "runtime list \<Rightarrow> dnum list option" where
  "to_numbers [] = Some []"
| "to_numbers (v # vs) =
     (case to_number v of
        None \<Rightarrow> None
      | Some n \<Rightarrow> map_option ((#) n) (to_numbers vs))"

text \<open>
  Lines 176 and 177: \<^verbatim>\<open>reduce((s, r) => s + r.rating, 0) / ratings.length\<close>, as it is
  written to the reply and to the file. With no string, array or object among the
  values every \<^verbatim>\<open>+\<close> is an addition of doubles, from the left and starting at 0, and
  the sum is divided by the count. With one, some \<^verbatim>\<open>+\<close> concatenates strings and
  \<^verbatim>\<open>/\<close> reads the string back as a number; the conversions between numbers and
  strings are not modelled, and the number they end in (as written: a number or
  \<^verbatim>\<open>null\<close>) is the parameter \<open>coerced\<close>.
\<close>

definition mean_rating :: "json \<Rightarrow> runtime list \<Rightarrow> json" where
  "mean_rating coerced vs =
     (case to_numbers vs of
        Some ns \<Rightarrow> number_json (ddiv (foldl dadd (Finite 0) ns) (length vs))
      | None \<Rightarrow> coerced)"

text \<open>\<^verbatim>\<open>x || []\<close>\<close>

definition or_empty :: "runtime \<Rightarrow> runtime" where
  "or_empty x = (if truthy x then x else JArr [])"

definition rate :: "json \<Rightarrow> store \<Rightarrow> string \<Rightarrow> dnum jsobj \<Rightarrow> outcome \<times> store" where
  "rate coerced st ident body =
     (let userId = get_prop body ''userId''; rating = get_prop body ''rating''
      in if \<not> truthy userId \<or> \<not> truthy rating
         then (Reply 400 (error_body ''Missing userId or rating''), st)
         else (case find (has_id ident) (communityNotes st) of
                 None \<Rightarrow> (Reply 404 (error_body ''Note not found''), st)
               | Some note \<Rightarrow>
                   (case or_empty (parse (get_prop note ''ratings'')) of
                      JArr rs \<Rightarrow>
                        (case upsert_rating (\<lambda>w. strict_eq w userId) userId rating rs of
                           None \<Rightarrow> (Threw, st)
                         | Some rs' \<Rightarrow>
                             (case rating_values rs' of
                                None \<Rightarrow> (Threw, st)
                              | Some vs \<Rightarrow>
                                  (let avg = mean_rating coerced vs;
                                       note' = set_prop
                                                 (set_prop note ''ratings'' (written (JArr rs')))
                                                 ''averageRating'' avg
                                   in (Reply 200 (JObj
                                         [(''averageRating'', avg),
                                          (''ratingsCount'', JNum (of_nat (length rs')))]),
                                       st\<lparr>communityNotes :=
                                            replace_first (has_id ident) note'
                                              (communityNotes st)\<rparr>))))
                    | _ \<Rightarrow> (Threw, st))))"

subsection \<open>POST /api/auth/signup\<close>

definition signup :: "store \<Rightarrow> string \<Rightarrow> string \<Rightarrow> dnum jsobj \<Rightarrow> outcome \<times> store" where
  "signup st nid now body =
     (let email = get_prop body ''email''; password = get_prop body ''password'';
          name = get_prop body ''name''
      in if \<not> truthy email \<or> \<not> truthy password \<or> \<not> truthy name
         then (Reply 400 (error_body ''Missing fields''), st)
         else (case find (\<lambda>u. strict_eq (parse (get_prop u ''email'')) email) (users st) of
                 Some u \<Rightarrow> (Reply 400 (error_body ''Email exists''), st)
               | None \<Rightarrow>
                   (let user = [(''id'', JStr nid), (''email'', written email),
                                (''password'', written password), (''name'', written name),
                                (''createdAt'', JStr now)]
                    in (Reply 200 (JObj [(''id'', JStr nid), (''email'', written email),
                                         (''name'', written name)]),
                        st\<lparr>users := users st @ [user]\<rparr>))))"

text \<open>Signup requests served one after the other, each with its generated id and time.\<close>

fun signups :: "store \<Rightarrow> (string \<times> string \<times> dnum jsobj) list \<Rightarrow> store" where
  "signups st [] = st"
| "signups st ((nid, now, body) # reqs) = signups (snd (signup st nid now body)) reqs"

section \<open>Notions used by the properties\<close>

text \<open>
  A value other than an array, an object, an infinity or \<^verbatim>\<open>NaN\<close>: the values that
  \<^verbatim>\<open>===\<close> finds equal to themselves and that \<^verbatim>\<open>JSON.stringify\<close> writes without
  loss.
\<close>

fun plain :: "runtime \<Rightarrow> bool" where
  "plain (JArr xs) = False"
| "plain (JObj ps) = False"
| "plain (JNum (Infinity s)) = False"
| "plain (JNum NaN) = False"
| "plain v = True"

text \<open>The note a request addresses: \<^verbatim>\<open>communityNotes.find(n => n.id === id)\<close>.\<close>

definition find_note :: "store \<Rightarrow> string \<Rightarrow> rat jsobj option" where
  "find_note st ident = find (has_id ident) (communityNotes st)"






text \<open>The \<^verbatim>\<open>email\<close> of every stored user, in order.\<close>

definition emails :: "store \<Rightarrow> json list" where
  "emails st = map (\<lambda>u. get_prop u ''email'') (users st)"


text \<open>
  A small document for the concrete instances below: one course, one user and one
  note of that user, not yet rated.
\<close>

definition demo_store :: store where
  "demo_store =
     \<lparr>courses = [[(''id'', JStr ''c1''), (''title'', JStr ''AP Calculus AB''),
                  (''description'', JStr ''Master differential and integral calculus''),
                  (''links'', JArr [])]],
      users = [[(''id'', JStr ''u1''), (''email'', JStr ''a@b.com''),
                (''password'', JStr ''x''), (''name'', JStr ''A''),
                (''createdAt'', JStr ''2024-01-01T00:00:00.000Z'')]],
      communityNotes = [[(''id'', JStr ''n1''), (''courseId'', JStr ''c1''),
                (''title'', JStr ''Limits''), (''content'', JStr ''text''),
                (''author'', JStr ''A''), (''authorId'', JStr ''u1''),
                (''createdAt'', JStr ''2024-01-02T00:00:00.000Z''),
                (''downloads'', JNum 0), (''ratings'', JArr []),
                (''averageRating'', JNum 0)]],
      analytics = JObj [(''sessions'', JArr [])]\<rparr>"

section \<open>Facts about doubles\<close>






section \<open>Basic facts\<close>

lemma map_of_set_prop: "map_of (set_prop ps k v) = (map_of ps)(k \<mapsto> v)"
  by (induction ps) (auto simp: fun_eq_iff)

lemma get_prop_set_prop:
  "get_prop (set_prop ps k v) k' = (if k' = k then v else get_prop ps k')"
  by (simp add: get_prop_def map_of_set_prop)

lemma get_prop_filter_same:
  "get_prop (filter (\<lambda>(a, v). a \<noteq> k) ps) k = JUndefined"
  by (induction ps) (auto simp: get_prop_def)

lemma get_prop_missing: "map_of obj k = None \<Longrightarrow> get_prop obj k = JUndefined"
  by (simp add: get_prop_def)

lemma strict_eq_imp_eq: "strict_eq a b \<Longrightarrow> a = b"
  by (cases a; cases b) auto

lemma plain_cases:
  assumes "plain v"
  obtains "v = JUndefined" | "v = JNull" | b where "v = JBool b"
    | q where "v = JNum (Finite q)" | s where "v = JStr s"
proof (cases v)
  case (JNum n)
  with assms that show ?thesis by (cases n) simp_all
qed (use assms that in simp_all)

lemma strict_eq_plain: "plain b \<Longrightarrow> strict_eq a b = (a = b)"
  by (erule plain_cases; cases a) auto

lemma written_parse: "written (parse x) = x"
  by (induction x) (auto simp: parse_def intro: map_idI)

lemma parse_written_plain: "plain v \<Longrightarrow> parse (written v) = v"
  by (erule plain_cases) (simp_all add: parse_def)

lemma find_replace_first:
  "find P xs = Some x \<Longrightarrow> P y \<Longrightarrow> find P (replace_first P y xs) = Some y"
  by (induction xs) auto

lemma replace_first_nth:
  "find P xs = Some x \<Longrightarrow> \<exists>i < length xs. xs ! i = x \<and> replace_first P y xs = xs[i := y]"
proof (induction xs)
  case Nil
  then show ?case by simp
next
  case (Cons a xs)
  show ?case
  proof (cases "P a")
    case True
    with Cons.prems have "a = x" by simp
    with True have "(a # xs) ! 0 = x \<and> replace_first P y (a # xs) = (a # xs)[0 := y]"
      by simp
    then show ?thesis by blast
  next
    case False
    with Cons obtain i where "i < length xs" "xs ! i = x" "replace_first P y xs = xs[i := y]"
      by auto
    with False have "Suc i < length (a # xs) \<and> (a # xs) ! Suc i = x
        \<and> replace_first P y (a # xs) = (a # xs)[Suc i := y]" by simp
    then show ?thesis by blast
  qed
qed

lemma public_user_fields:
  "\<exists>ps. public_user u = JObj ps \<and> map_of ps ''password'' = None
       \<and> get_prop ps ''id'' = get_prop u ''id'' \<and> get_prop ps ''name'' = get_prop u ''name''
       \<and> get_prop ps ''email'' = get_prop u ''email''"
  by (simp add: public_user_def literal_def get_prop_def)

lemma has_id_set_prop: "k \<noteq> ''id'' \<Longrightarrow> has_id ident (set_prop n k v) = has_id ident n"
  by (simp add: has_id_def get_prop_set_prop)

lemma find_Some_holds: "find P xs = Some x \<Longrightarrow> P x"
  by (induction xs) (auto split: if_splits)

lemma object_assign_snoc:
  "object_assign t (s @ [kv]) = assign_prop (object_assign t s) kv"
  by (simp add: object_assign_def)

lemma map_of_object_assign:
  "map_of (object_assign t s) k =
     (if k = ''__proto__'' \<and> map_of t ''__proto__'' = None then None
      else (map_of t ++ map_of (rev s)) k)"
proof (induction s arbitrary: k rule: rev_induct)
  case Nil
  then show ?case by (simp add: object_assign_def)
next
  case (snoc kv s)
  have p: "map_of t ''__proto__'' = None \<Longrightarrow> map_of (object_assign t s) ''__proto__'' = None"
    using snoc [of "''__proto__''"] by simp
  have q: "map_of t ''__proto__'' \<noteq> None \<Longrightarrow> map_of (object_assign t s) ''__proto__'' \<noteq> None"
    using snoc [of "''__proto__''"] by (auto simp: map_add_def split: option.splits)
  show ?case
    using p q snoc [of k]
    by (cases kv) (auto simp: object_assign_snoc assign_prop_def map_of_set_prop map_add_def
        split: option.splits)
qed

lemma map_of_rev_distinct: "distinct (map fst xs) \<Longrightarrow> map_of (rev xs) = map_of xs"
  by (simp add: map_of_inject_set distinct_map)

lemma object_assign_other:
  "k \<noteq> ''__proto__'' \<Longrightarrow> distinct (map fst s) \<Longrightarrow>
   map_of (object_assign t s) k = (case map_of s k of Some v \<Rightarrow> Some v | None \<Rightarrow> map_of t k)"
  by (simp add: map_of_object_assign map_of_rev_distinct map_add_def)

lemma object_assign_proto:
  "map_of t ''__proto__'' = None \<Longrightarrow> map_of (object_assign t s) ''__proto__'' = None"
  by (simp add: map_of_object_assign)

lemma map_of_written:
  "map_of (map (map_prod id written) body) k = map_option written (map_of body k)"
  by (induction body) auto

lemma object_assign_written:
  assumes "k \<noteq> ''__proto__''" "distinct (map fst body)"
  shows "map_of (object_assign c (map (map_prod id written) body)) k
         = (case map_of body k of Some v \<Rightarrow> Some (written v) | None \<Rightarrow> map_of c k)"
proof -
  have "distinct (map fst (map (map_prod id written) body))"
    using assms(2) by (simp add: comp_def)
  then show ?thesis
    using assms(1) by (simp add: object_assign_other map_of_written split: option.splits)
qed

section \<open>Facts about the rating handler\<close>

lemma parse_simps:
  "parse JUndefined = JUndefined" "parse JNull = JNull" "parse (JBool b) = JBool b"
  "parse (JNum q) = JNum (Finite q)" "parse (JStr s) = JStr s"
  "parse (JArr xs) = JArr (map parse xs)"
  "parse (JObj ps) = JObj (map (map_prod id parse) ps)"
  by (simp_all add: parse_def)






lemma written_eq_JNull_parse: "written (parse r) = JNull \<Longrightarrow> parse r = JNull"
  by (simp add: written_parse parse_simps)

























lemma same_plain: "plain u \<Longrightarrow> strict_eq (parse w) u = (w = written u)"
proof -
  assume p: "plain u"
  have "parse w = u \<Longrightarrow> w = written u" using written_parse [of w] by simp
  moreover have "w = written u \<Longrightarrow> parse w = u" using parse_written_plain [OF p] by simp
  ultimately show ?thesis using strict_eq_plain [OF p] by blast
qed














section \<open>Facts about signup\<close>

lemma signup_missing:
  "\<not> truthy (get_prop body ''email'') \<or> \<not> truthy (get_prop body ''password'')
     \<or> \<not> truthy (get_prop body ''name'')
   \<Longrightarrow> signup st nid now body = (Reply 400 (error_body ''Missing fields''), st)"
  by (auto simp: signup_def)

lemma signup_fresh:
  assumes "truthy (get_prop body ''email'')" "truthy (get_prop body ''password'')"
      and "truthy (get_prop body ''name'')"
      and "find (\<lambda>u. strict_eq (parse (get_prop u ''email'')) (get_prop body ''email''))
             (users st) = None"
  shows "signup st nid now body =
           (Reply 200 (JObj [(''id'', JStr nid), (''email'', written (get_prop body ''email'')),
                             (''name'', written (get_prop body ''name''))]),
            st\<lparr>users := users st @
                 [[(''id'', JStr nid), (''email'', written (get_prop body ''email'')),
                   (''password'', written (get_prop body ''password'')),
                   (''name'', written (get_prop body ''name'')), (''createdAt'', JStr now)]]\<rparr>)"
  using assms by (simp add: signup_def Let_def)

lemma signup_taken:
  assumes "truthy (get_prop body ''email'')" "truthy (get_prop body ''password'')"
      and "truthy (get_prop body ''name'')"
      and "find (\<lambda>u. strict_eq (parse (get_prop u ''email'')) (get_prop body ''email''))
             (users st) = Some u"
  shows "signup st nid now body = (Reply 400 (error_body ''Email exists''), st)"
  using assms by (simp add: signup_def Let_def)

lemma find_email_None:
  "e \<notin> set (map parse (emails st)) \<Longrightarrow>
   find (\<lambda>u. strict_eq (parse (get_prop u ''email'')) e) (users st) = None"
  using strict_eq_imp_eq by (fastforce simp: find_None_iff emails_def)

lemma find_email_Some:
  assumes "e \<in> set (map parse (emails st))" "plain e"
  shows "\<exists>u. find (\<lambda>u. strict_eq (parse (get_prop u ''email'')) e) (users st) = Some u"
proof -
  from assms(1) obtain u where "u \<in> set (users st)" "parse (get_prop u ''email'') = e"
    by (auto simp: emails_def)
  with assms(2) have "\<exists>u \<in> set (users st). strict_eq (parse (get_prop u ''email'')) e"
    by (auto simp: strict_eq_plain)
  then have "find (\<lambda>u. strict_eq (parse (get_prop u ''email'')) e) (users st) \<noteq> None"
    by (auto simp: find_None_iff)
  then show ?thesis by auto
qed

lemma signup_keeps_emails_distinct:
  assumes "plain (get_prop body ''email'')" "distinct (emails st)"
  shows "distinct (emails (snd (signup st nid now body)))"
proof (cases "truthy (get_prop body ''email'') \<and> truthy (get_prop body ''password'')
         \<and> truthy (get_prop body ''name'')")
  case False
  then show ?thesis using assms(2) by (simp add: signup_missing)
next
  case True
  let ?e = "get_prop body ''email''"
  show ?thesis
  proof (cases "find (\<lambda>u. strict_eq (parse (get_prop u ''email'')) ?e) (users st)")
    case (Some u)
    with True show ?thesis using assms(2) by (simp add: signup_taken)
  next
    case None
    then have "\<forall>u \<in> set (users st). get_prop u ''email'' \<noteq> written ?e"
      using assms(1) by (simp add: find_None_iff same_plain)
    then have "written ?e \<notin> set (emails st)"
      by (auto simp: emails_def)
    with None True assms(2) show ?thesis
      by (simp add: signup_fresh emails_def get_prop_def)
  qed
qed

lemma signups_keep_emails_distinct:
  "distinct (emails st) \<Longrightarrow> list_all (\<lambda>(nid, now, b). plain (get_prop b ''email'')) reqs
   \<Longrightarrow> distinct (emails (signups st reqs))"
proof (induction reqs arbitrary: st)
  case Nil
  then show ?case by simp
next
  case (Cons r reqs)
  obtain nid now b where r: "r = (nid, now, b)" by (cases r) auto
  with Cons.prems have "distinct (emails (snd (signup st nid now b)))"
    by (simp add: signup_keeps_emails_distinct)
  with Cons.IH [of "snd (signup st nid now b)"] Cons.prems(2) r show ?case by simp
qed

section \<open>Rating: a zero is a missing rating\<close>

text \<open>
  C6. A request to \<^verbatim>\<open>POST /api/notes/:id/rate\<close> whose \<^verbatim>\<open>rating\<close> is \<^verbatim>\<open>0\<close> is
  answered with status 400 and \<^verbatim>\<open>{error: "Missing userId or rating"}\<close>, the store (so
  the ratings of every note) is left as it was, and the outcome is the outcome of the
  same request with the \<^verbatim>\<open>rating\<close> property removed.
\<close>

theorem rate_zero_rejected:
  assumes "get_prop body ''rating'' = JNum (Finite 0)"
  shows "rate coerced st ident body
           = (Reply 400 (error_body ''Missing userId or rating''), st)
       \<and> rate coerced st ident body
           = rate coerced st ident (filter (\<lambda>(k, v). k \<noteq> ''rating'') body)"
  using assms by (simp add: rate_def get_prop_filter_same)

theorem rate_zero_rejected_witness:
  "get_prop [(''userId'', JStr ''u1''), (''rating'', JNum (Finite 0))] ''rating'' = JNum (Finite 0)
   \<and> rate JNull demo_store ''n1'' [(''userId'', JStr ''u1''), (''rating'', JNum (Finite 0))]
       = (Reply 400 (error_body ''Missing userId or rating''), demo_store)"
proof -
  have h: "get_prop [(''userId'', JStr ''u1''), (''rating'', JNum (Finite 0))] ''rating'' = JNum (Finite 0)"
    by (simp add: get_prop_def)
  from rate_zero_rejected [OF h] show ?thesis using h by simp
qed

section \<open>Creating a note\<close>

text \<open>
  C3. When a request to \<^verbatim>\<open>POST /api/notes\<close> lacks one of \<^verbatim>\<open>courseId\<close>, \<^verbatim>\<open>title\<close>,
  \<^verbatim>\<open>content\<close>, \<^verbatim>\<open>authorId\<close>, or no stored user has the \<^verbatim>\<open>authorId\<close> as its id, the
  reply has status 400 and the whole store, so the list of notes, is as before. The
  message is \<^verbatim>\<open>Invalid author\<close> when the four properties are truthy and
  \<^verbatim>\<open>Missing fields\<close> otherwise.
\<close>

theorem post_note_rejected:
  assumes "map_of body ''courseId'' = None \<or> map_of body ''title'' = None
         \<or> map_of body ''content'' = None \<or> map_of body ''authorId'' = None
         \<or> (\<forall>u \<in> set (users st).
               \<not> strict_eq (parse (get_prop u ''id'')) (get_prop body ''authorId''))"
  shows "post_note st nid now body =
           (Reply 400 (error_body
              (if truthy (get_prop body ''courseId'') \<and> truthy (get_prop body ''title'')
                  \<and> truthy (get_prop body ''content'') \<and> truthy (get_prop body ''authorId'')
               then ''Invalid author'' else ''Missing fields'')), st)"
proof (cases "truthy (get_prop body ''courseId'') \<and> truthy (get_prop body ''title'')
         \<and> truthy (get_prop body ''content'') \<and> truthy (get_prop body ''authorId'')")
  case False
  then show ?thesis by (auto simp: post_note_def)
next
  case True
  then have "map_of body ''courseId'' \<noteq> None" "map_of body ''title'' \<noteq> None"
     "map_of body ''content'' \<noteq> None" "map_of body ''authorId'' \<noteq> None"
    using get_prop_missing by fastforce+
  with assms have
    "\<forall>u \<in> set (users st). \<not> strict_eq (parse (get_prop u ''id'')) (get_prop body ''authorId'')"
    by blast
  then have "find (\<lambda>u. strict_eq (parse (get_prop u ''id'')) (get_prop body ''authorId'')) (users st)
      = None"
    by (simp add: find_None_iff)
  with True show ?thesis by (simp add: post_note_def)
qed

theorem post_note_rejected_witness:
  "post_note demo_store ''n2'' ''2024-01-03T00:00:00.000Z''
     [(''courseId'', JStr ''c1''), (''title'', JStr ''T''), (''content'', JStr ''C''),
      (''authorId'', JStr ''nobody'')]
   = (Reply 400 (error_body ''Invalid author''), demo_store)"
proof -
  have h: "\<forall>u \<in> set (users demo_store). \<not> strict_eq (parse (get_prop u ''id''))
      (get_prop [(''courseId'', JStr ''c1''), (''title'', JStr ''T''), (''content'', JStr ''C''),
        (''authorId'', JStr ''nobody'')] ''authorId'')"
    by (simp add: demo_store_def get_prop_def parse_def)
  show ?thesis
    using h by (simp add: post_note_rejected get_prop_def)
qed

section \<open>Editing and deleting a note without being its author\<close>

text \<open>
  C4. For a stored note, \<^verbatim>\<open>PUT /api/notes/:id\<close> and \<^verbatim>\<open>DELETE /api/notes/:id\<close> with an
  \<^verbatim>\<open>authorId\<close> different from the note's and no truthy \<^verbatim>\<open>forceDev\<close> reply 403 with
  \<^verbatim>\<open>{error: "Not allowed"}\<close> and leave the store as it was.
\<close>

theorem note_edit_delete_forbidden:
  assumes "find_note st ident = Some note"
      and "parse (get_prop note ''authorId'') \<noteq> get_prop body ''authorId''"
      and "\<not> truthy (get_prop body ''forceDev'')"
  shows "put_note st ident body = (Reply 403 (error_body ''Not allowed''), st)
       \<and> delete_note st ident body = (Reply 403 (error_body ''Not allowed''), st)"
proof -
  from assms(2) have "\<not> strict_eq (parse (get_prop note ''authorId'')) (get_prop body ''authorId'')"
    using strict_eq_imp_eq by blast
  with assms(1,3) show ?thesis
    by (simp add: put_note_def delete_note_def find_note_def)
qed

theorem note_edit_delete_forbidden_witness:
  "find_note demo_store ''n1'' = Some (hd (communityNotes demo_store))
   \<and> parse (get_prop (hd (communityNotes demo_store)) ''authorId'') \<noteq> get_prop [(''title'', JStr ''Hacked''), (''authorId'', JStr ''u2'')] ''authorId''
   \<and> put_note demo_store ''n1'' [(''title'', JStr ''Hacked''), (''authorId'', JStr ''u2'')]
       = (Reply 403 (error_body ''Not allowed''), demo_store)
   \<and> delete_note demo_store ''n1'' [(''title'', JStr ''Hacked''), (''authorId'', JStr ''u2'')]
       = (Reply 403 (error_body ''Not allowed''), demo_store)"
proof -
  have a: "find_note demo_store ''n1'' = Some (hd (communityNotes demo_store))"
    by (simp add: find_note_def demo_store_def has_id_def get_prop_def parse_def)
  have b: "parse (get_prop (hd (communityNotes demo_store)) ''authorId'')
      \<noteq> get_prop [(''title'', JStr ''Hacked''), (''authorId'', JStr ''u2'')] ''authorId''"
    by (simp add: demo_store_def get_prop_def parse_def)
  have c: "\<not> truthy (get_prop [(''title'', JStr ''Hacked''), (''authorId'', JStr ''u2'')] ''forceDev'')"
    by (simp add: get_prop_def)
  from note_edit_delete_forbidden [OF a b c] a b show ?thesis by simp
qed

section \<open>Fetching the data\<close>

text \<open>
  C9. \<^verbatim>\<open>GET /api/data\<close> replies with the courses, the community notes and the analytics
  as stored, and with one object per stored user, in order, that carries the user's
  \<^verbatim>\<open>id\<close>, \<^verbatim>\<open>name\<close> and \<^verbatim>\<open>email\<close> and has no \<^verbatim>\<open>password\<close> property. The store is not
  changed.
\<close>

theorem get_data_strips_passwords:
  "\<exists>resp us. get_data st = (Reply 200 (JObj resp), st)
     \<and> get_prop resp ''courses'' = JArr (map JObj (courses st))
     \<and> get_prop resp ''communityNotes'' = JArr (map JObj (communityNotes st))
     \<and> get_prop resp ''analytics'' = analytics st
     \<and> get_prop resp ''users'' = JArr us
     \<and> list_all2 (\<lambda>u r. \<exists>ps. r = JObj ps \<and> map_of ps ''password'' = None
            \<and> get_prop ps ''id'' = get_prop u ''id''
            \<and> get_prop ps ''name'' = get_prop u ''name''
            \<and> get_prop ps ''email'' = get_prop u ''email'') (users st) us"
proof -
  have "list_all2 (\<lambda>u r. \<exists>ps. r = JObj ps \<and> map_of ps ''password'' = None
            \<and> get_prop ps ''id'' = get_prop u ''id''
            \<and> get_prop ps ''name'' = get_prop u ''name''
            \<and> get_prop ps ''email'' = get_prop u ''email'') (users st) (map public_user (users st))"
    using public_user_fields by (simp add: list_all2_conv_all_nth)
  then show ?thesis
    by (simp add: get_data_def literal_def get_prop_def)
qed

theorem get_data_strips_passwords_witness:
  "get_data demo_store =
     (Reply 200 (JObj
        [(''courses'', JArr (map JObj (courses demo_store))),
         (''communityNotes'', JArr (map JObj (communityNotes demo_store))),
         (''users'', JArr [JObj [(''id'', JStr ''u1''), (''name'', JStr ''A''),
                                 (''email'', JStr ''a@b.com'')]]),
         (''analytics'', JObj [(''sessions'', JArr [])])]), demo_store)"
  using get_data_strips_passwords [of demo_store]
  by (simp add: get_data_def literal_def public_user_def demo_store_def get_prop_def)

section \<open>Editing a note\<close>

text \<open>
  C8, as the claim states it, fails. A \<^verbatim>\<open>title\<close> that is provided but falsy, such as
  the empty string, passes the authorization check and leaves the stored title as it
  was (\<^verbatim>\<open>if (title) note.title = title\<close>). And a provided title that is a number too
  large for a double (\<^verbatim>\<open>1e400\<close>) is truthy and assigned, but the stored title is
  \<^verbatim>\<open>null\<close>.
\<close>

theorem put_note_empty_title_kept:
  "put_note demo_store ''n1'' [(''title'', JStr ''''), (''authorId'', JStr ''u1'')]
     = (Reply 200 (JObj (hd (communityNotes demo_store))), demo_store)
   \<and> get_prop (hd (communityNotes demo_store)) ''title'' = JStr ''Limits''
   \<and> get_prop (hd (communityNotes (snd (put_note demo_store ''n1''
          [(''title'', JNum (Infinity False)), (''authorId'', JStr ''u1'')])))) ''title''
       = JNull"
  by (simp add: put_note_def Let_def demo_store_def has_id_def get_prop_def parse_def)

text \<open>
  C8, amended. With no note of the given id the reply is 404. For a stored note and a
  request that passes the authorization check (its \<^verbatim>\<open>authorId\<close> is \<^verbatim>\<open>===\<close> the
  note's, or \<^verbatim>\<open>forceDev\<close> is truthy), the reply is 200 with the updated note, which is
  the note found under the id afterwards; its title is the provided title, as
  \<^verbatim>\<open>JSON.stringify\<close> writes it, when that is truthy and the old title otherwise, and
  likewise for the content.
\<close>

theorem put_note_authorized:
  "(find_note st ident = None \<longrightarrow>
      put_note st ident body = (Reply 404 (error_body ''Note not found''), st))
   \<and> (\<forall>note. find_note st ident = Some note
         \<and> (strict_eq (parse (get_prop note ''authorId'')) (get_prop body ''authorId'')
            \<or> truthy (get_prop body ''forceDev''))
       \<longrightarrow> (\<exists>note'. put_note st ident body
                   = (Reply 200 (JObj note'),
                      st\<lparr>communityNotes :=
                           replace_first (has_id ident) note' (communityNotes st)\<rparr>)
             \<and> find_note (snd (put_note st ident body)) ident = Some note'
             \<and> get_prop note' ''title''
                 = (if truthy (get_prop body ''title'') then written (get_prop body ''title'')
                    else get_prop note ''title'')
             \<and> get_prop note' ''content''
                 = (if truthy (get_prop body ''content'') then written (get_prop body ''content'')
                    else get_prop note ''content'')))"
proof (intro conjI allI impI)
  assume "find_note st ident = None"
  then show "put_note st ident body = (Reply 404 (error_body ''Note not found''), st)"
    by (simp add: put_note_def find_note_def)
next
  fix n :: "rat jsobj"
  assume a: "find_note st ident = Some n
         \<and> (strict_eq (parse (get_prop n ''authorId'')) (get_prop body ''authorId'')
            \<or> truthy (get_prop body ''forceDev''))"
  define note1 where
    "note1 = (if truthy (get_prop body ''title'') then set_prop n ''title'' (written (get_prop body ''title''))
              else n)"
  define note2 where
    "note2 = (if truthy (get_prop body ''content'')
              then set_prop note1 ''content'' (written (get_prop body ''content'')) else note1)"
  from a have f: "find (has_id ident) (communityNotes st) = Some n"
    by (simp add: find_note_def)
  then have "has_id ident n" by (rule find_Some_holds)
  then have h2: "has_id ident note2"
    by (simp add: note1_def note2_def has_id_set_prop)
  have r: "put_note st ident body
      = (Reply 200 (JObj note2),
         st\<lparr>communityNotes := replace_first (has_id ident) note2 (communityNotes st)\<rparr>)"
    using a f by (auto simp: put_note_def Let_def note1_def note2_def)
  have fn: "find_note (snd (put_note st ident body)) ident = Some note2"
    using f h2 by (simp add: r find_note_def find_replace_first)
  have t: "get_prop note2 ''title''
      = (if truthy (get_prop body ''title'') then written (get_prop body ''title'')
         else get_prop n ''title'')"
    by (simp add: note1_def note2_def get_prop_set_prop)
  have c: "get_prop note2 ''content''
      = (if truthy (get_prop body ''content'') then written (get_prop body ''content'')
         else get_prop n ''content'')"
    by (simp add: note1_def note2_def get_prop_set_prop)
  from r fn t c show "\<exists>n'. put_note st ident body
                   = (Reply 200 (JObj n'),
                      st\<lparr>communityNotes :=
                           replace_first (has_id ident) n' (communityNotes st)\<rparr>)
             \<and> find_note (snd (put_note st ident body)) ident = Some n'
             \<and> get_prop n' ''title''
                 = (if truthy (get_prop body ''title'') then written (get_prop body ''title'')
                    else get_prop n ''title'')
             \<and> get_prop n' ''content''
                 = (if truthy (get_prop body ''content'') then written (get_prop body ''content'')
                    else get_prop n ''content'')"
    by blast
qed

theorem put_note_authorized_witness:
  "\<exists>note'. put_note demo_store ''n1''
         [(''title'', JStr ''Derivatives''), (''authorId'', JStr ''u1'')]
       = (Reply 200 (JObj note'),
          demo_store\<lparr>communityNotes :=
            replace_first (has_id ''n1'') note' (communityNotes demo_store)\<rparr>)
     \<and> find_note (snd (put_note demo_store ''n1''
          [(''title'', JStr ''Derivatives''), (''authorId'', JStr ''u1'')])) ''n1'' = Some note'
     \<and> get_prop note' ''title'' = JStr ''Derivatives''
     \<and> get_prop note' ''content'' = JStr ''text''"
proof -
  let ?b = "[(''title'', JStr ''Derivatives''), (''authorId'', JStr ''u1'')]"
  let ?n = "hd (communityNotes demo_store)"
  have a: "find_note demo_store ''n1'' = Some ?n"
    by (simp add: find_note_def demo_store_def has_id_def get_prop_def parse_def)
  have b: "strict_eq (parse (get_prop ?n ''authorId'')) (get_prop ?b ''authorId'')"
    by (simp add: demo_store_def get_prop_def parse_def)
  from put_note_authorized [of demo_store "''n1''" ?b] a b
  obtain n' where r: "put_note demo_store ''n1'' ?b
       = (Reply 200 (JObj n'),
          demo_store\<lparr>communityNotes :=
            replace_first (has_id ''n1'') n' (communityNotes demo_store)\<rparr>)"
     "find_note (snd (put_note demo_store ''n1'' ?b)) ''n1'' = Some n'"
     "get_prop n' ''title''
        = (if truthy (get_prop ?b ''title'') then written (get_prop ?b ''title'')
           else get_prop ?n ''title'')"
     "get_prop n' ''content''
        = (if truthy (get_prop ?b ''content'') then written (get_prop ?b ''content'')
           else get_prop ?n ''content'')"
    by blast
  from r(3) have t: "get_prop n' ''title'' = JStr ''Derivatives''"
    by (simp add: get_prop_def)
  from r(4) have c: "get_prop n' ''content'' = JStr ''text''"
    by (simp add: get_prop_def demo_store_def)
  from r(1,2) t c show ?thesis by blast
qed

text \<open>
  C10. After a \<^verbatim>\<open>PUT /api/notes/:id\<close> that replied 200, the list of notes is the old
  one with the addressed note replaced at its place by the returned note; every property
  of that note other than \<^verbatim>\<open>title\<close> and \<^verbatim>\<open>content\<close> is as before (present with the
  same value, or absent); courses, users and analytics are as before.
\<close>

theorem put_note_frame:
  assumes "put_note st ident body = (Reply 200 resp, st')"
  shows "\<exists>i note note'. i < length (communityNotes st)
       \<and> find_note st ident = Some note \<and> communityNotes st ! i = note
       \<and> resp = JObj note'
       \<and> communityNotes st' = (communityNotes st)[i := note']
       \<and> (\<forall>k. k \<noteq> ''title'' \<and> k \<noteq> ''content'' \<longrightarrow> map_of note' k = map_of note k)
       \<and> courses st' = courses st \<and> users st' = users st \<and> analytics st' = analytics st"
proof -
  from assms obtain n where f: "find (has_id ident) (communityNotes st) = Some n"
    by (auto simp: put_note_def Let_def error_body_def split: option.splits)
  define note1 where
    "note1 = (if truthy (get_prop body ''title'') then set_prop n ''title'' (written (get_prop body ''title''))
              else n)"
  define note2 where
    "note2 = (if truthy (get_prop body ''content'')
              then set_prop note1 ''content'' (written (get_prop body ''content'')) else note1)"
  from assms f have r: "resp = JObj note2"
    "st' = st\<lparr>communityNotes := replace_first (has_id ident) note2 (communityNotes st)\<rparr>"
    by (auto simp: put_note_def Let_def note1_def note2_def split: if_splits)
  from replace_first_nth [OF f, of note2] obtain i where
    i: "i < length (communityNotes st)" "communityNotes st ! i = n"
       "replace_first (has_id ident) note2 (communityNotes st) = (communityNotes st)[i := note2]"
    by blast
  have k: "\<forall>k. k \<noteq> ''title'' \<and> k \<noteq> ''content'' \<longrightarrow> map_of note2 k = map_of n k"
    by (simp add: note1_def note2_def map_of_set_prop)
  from f i r k show ?thesis
    by (auto simp: find_note_def)
qed

theorem put_note_frame_witness:
  "\<exists>i note note'. i < length (communityNotes demo_store)
     \<and> find_note demo_store ''n1'' = Some note \<and> communityNotes demo_store ! i = note
     \<and> JObj (set_prop (hd (communityNotes demo_store)) ''title'' (JStr ''Derivatives''))
         = JObj note'
     \<and> communityNotes (snd (put_note demo_store ''n1''
          [(''title'', JStr ''Derivatives''), (''authorId'', JStr ''u1'')]))
         = (communityNotes demo_store)[i := note']
     \<and> (\<forall>k. k \<noteq> ''title'' \<and> k \<noteq> ''content'' \<longrightarrow> map_of note' k = map_of note k)
     \<and> courses (snd (put_note demo_store ''n1''
          [(''title'', JStr ''Derivatives''), (''authorId'', JStr ''u1'')])) = courses demo_store
     \<and> users (snd (put_note demo_store ''n1''
          [(''title'', JStr ''Derivatives''), (''authorId'', JStr ''u1'')])) = users demo_store
     \<and> analytics (snd (put_note demo_store ''n1''
          [(''title'', JStr ''Derivatives''), (''authorId'', JStr ''u1'')]))
         = analytics demo_store"
proof -
  let ?b = "[(''title'', JStr ''Derivatives''), (''authorId'', JStr ''u1'')]"
  have "fst (put_note demo_store ''n1'' ?b)
      = Reply 200 (JObj (set_prop (hd (communityNotes demo_store)) ''title''
          (JStr ''Derivatives'')))"
    by (simp add: put_note_def Let_def demo_store_def has_id_def get_prop_def parse_def)
  then have e: "put_note demo_store ''n1'' ?b
      = (Reply 200 (JObj (set_prop (hd (communityNotes demo_store)) ''title''
           (JStr ''Derivatives''))), snd (put_note demo_store ''n1'' ?b))"
    by (simp add: prod_eq_iff)
  show ?thesis by (rule put_note_frame [OF e])
qed

section \<open>Updating a course\<close>

text \<open>
  C7, as the claim states it, fails. A \<^verbatim>\<open>__proto__\<close> property of the body is not
  merged into a stored course that has no own property of that name: the reply is the
  course as it was and the store is unchanged. And a property whose value is a number
  too large for a double (\<^verbatim>\<open>1e400\<close>) is stored as \<^verbatim>\<open>null\<close>.
\<close>

theorem put_course_proto_not_stored:
  "put_course demo_store ''c1'' [(''__proto__'', JObj [(''admin'', JBool True)])]
     = (Reply 200 (JObj (hd (courses demo_store))), demo_store)
   \<and> map_of (hd (courses demo_store)) ''__proto__'' = None
   \<and> get_prop (hd (courses (snd (put_course demo_store ''c1''
          [(''weight'', JNum (Infinity False))])))) ''weight''
       = JNull"
  by (simp add: put_course_def Let_def demo_store_def has_id_def get_prop_def parse_def
      object_assign_def assign_prop_def)

text \<open>
  C7, amended. With no course of the given id the reply is 404 and the store is
  unchanged. For a stored course and a body (an object, each key once), the reply is 200
  with the updated course, which replaces the old one at its place in the store; every
  property of the body other than \<^verbatim>\<open>__proto__\<close>, \<^verbatim>\<open>id\<close> included, is in the updated
  course with the body's value as \<^verbatim>\<open>JSON.stringify\<close> writes it, every other property
  other than \<^verbatim>\<open>__proto__\<close> is as it was, and a course without an own \<^verbatim>\<open>__proto__\<close>
  property stays without one.
\<close>

theorem put_course_merges:
  "(find (has_id ident) (courses st) = None \<longrightarrow>
      put_course st ident body = (Reply 404 (error_body ''Not found''), st))
   \<and> (\<forall>course. find (has_id ident) (courses st) = Some course
         \<and> distinct (map fst body)
       \<longrightarrow> (\<exists>i course'. i < length (courses st) \<and> courses st ! i = course
             \<and> put_course st ident body
                 = (Reply 200 (JObj course'), st\<lparr>courses := (courses st)[i := course']\<rparr>)
             \<and> (\<forall>k. k \<noteq> ''__proto__'' \<longrightarrow> map_of course' k
                      = (case map_of body k of Some v \<Rightarrow> Some (written v)
                         | None \<Rightarrow> map_of course k))
             \<and> (map_of course ''__proto__'' = None
                  \<longrightarrow> map_of course' ''__proto__'' = None)))"
proof (intro conjI allI impI)
  assume "find (has_id ident) (courses st) = None"
  then show "put_course st ident body = (Reply 404 (error_body ''Not found''), st)"
    by (simp add: put_course_def)
next
  fix c :: "rat jsobj"
  assume a: "find (has_id ident) (courses st) = Some c
         \<and> distinct (map fst body)"
  let ?c' = "object_assign c (map (map_prod id written) body)"
  from a have f: "find (has_id ident) (courses st) = Some c" by simp
  from replace_first_nth [OF f, of ?c'] obtain i where
    i: "i < length (courses st)" "courses st ! i = c"
       "replace_first (has_id ident) ?c' (courses st) = (courses st)[i := ?c']"
    by blast
  have r: "put_course st ident body
      = (Reply 200 (JObj ?c'), st\<lparr>courses := (courses st)[i := ?c']\<rparr>)"
    using f i(3) by (simp add: put_course_def Let_def)
  have m: "\<forall>k. k \<noteq> ''__proto__'' \<longrightarrow> map_of ?c' k
      = (case map_of body k of Some v \<Rightarrow> Some (written v) | None \<Rightarrow> map_of c k)"
    using a by (simp add: object_assign_written)
  have p: "map_of c ''__proto__'' = None \<longrightarrow> map_of ?c' ''__proto__'' = None"
    by (simp add: object_assign_proto)
  show "\<exists>i course'. i < length (courses st) \<and> courses st ! i = c
             \<and> put_course st ident body
                 = (Reply 200 (JObj course'), st\<lparr>courses := (courses st)[i := course']\<rparr>)
             \<and> (\<forall>k. k \<noteq> ''__proto__'' \<longrightarrow> map_of course' k
                      = (case map_of body k of Some v \<Rightarrow> Some (written v)
                         | None \<Rightarrow> map_of c k))
             \<and> (map_of c ''__proto__'' = None
                  \<longrightarrow> map_of course' ''__proto__'' = None)"
    by (intro exI [of _ i] exI [of _ ?c'] conjI i(1) i(2) r m p)
qed

theorem put_course_merges_witness:
  "\<exists>i course'. i < length (courses demo_store)
     \<and> courses demo_store ! i = hd (courses demo_store)
     \<and> put_course demo_store ''c1'' [(''title'', JStr ''Calculus''), (''id'', JStr ''c9'')]
         = (Reply 200 (JObj course'),
            demo_store\<lparr>courses := (courses demo_store)[i := course']\<rparr>)
     \<and> map_of course' ''title'' = Some (JStr ''Calculus'')
     \<and> map_of course' ''id'' = Some (JStr ''c9'')
     \<and> map_of course' ''links'' = Some (JArr [])"
proof -
  let ?b = "[(''title'', JStr ''Calculus''), (''id'', JStr ''c9'')]"
  let ?c = "hd (courses demo_store)"
  have a: "find (has_id ''c1'') (courses demo_store) = Some ?c"
    by (simp add: demo_store_def has_id_def get_prop_def parse_def)
  have d: "distinct (map fst ?b)" by simp
  from put_course_merges [of "''c1''" demo_store ?b] a d
  obtain i c' where r: "i < length (courses demo_store)" "courses demo_store ! i = ?c"
     "put_course demo_store ''c1'' ?b
        = (Reply 200 (JObj c'), demo_store\<lparr>courses := (courses demo_store)[i := c']\<rparr>)"
     "\<forall>k. k \<noteq> ''__proto__'' \<longrightarrow> map_of c' k
          = (case map_of ?b k of Some v \<Rightarrow> Some (written v) | None \<Rightarrow> map_of ?c k)"
    by blast
  from r(4) have "map_of c' ''title'' = Some (JStr ''Calculus'')"
     "map_of c' ''id'' = Some (JStr ''c9'')" "map_of c' ''links'' = Some (JArr [])"
    by (simp_all add: demo_store_def)
  with r(1,2,3) show ?thesis by blast
qed

section \<open>Rating: the average\<close>




section \<open>Rating: submitting again\<close>




section \<open>Signing up\<close>

text \<open>
  C5, as the claim states it, fails: an \<^verbatim>\<open>email\<close> that is an array is never \<^verbatim>\<open>===\<close>
  a stored one, so a second signup with the same email replies 200 and the store then
  holds that email twice. The same happens with an \<^verbatim>\<open>email\<close> that is a number too
  large for a double (\<^verbatim>\<open>1e400\<close>): it is stored as \<^verbatim>\<open>null\<close> both times.
\<close>

theorem signup_unlike_email_twice:
  "fst (signup
          (snd (signup demo_store ''u2'' ''2024-02-01T00:00:00.000Z''
             [(''email'', JArr [JStr ''c@d.com'']), (''password'', JStr ''y''),
              (''name'', JStr ''C'')]))
          ''u3'' ''2024-02-02T00:00:00.000Z''
          [(''email'', JArr [JStr ''c@d.com'']), (''password'', JStr ''y''),
           (''name'', JStr ''C'')])
     = Reply 200 (JObj [(''id'', JStr ''u3''), (''email'', JArr [JStr ''c@d.com'']),
                        (''name'', JStr ''C'')])
   \<and> emails (signups demo_store
        [(''u2'', ''2024-02-01T00:00:00.000Z'',
          [(''email'', JArr [JStr ''c@d.com'']), (''password'', JStr ''y''),
           (''name'', JStr ''C'')]),
         (''u3'', ''2024-02-02T00:00:00.000Z'',
          [(''email'', JArr [JStr ''c@d.com'']), (''password'', JStr ''y''),
           (''name'', JStr ''C'')])])
     = [JStr ''a@b.com'', JArr [JStr ''c@d.com''], JArr [JStr ''c@d.com'']]
   \<and> emails (signups demo_store
        [(''u2'', ''2024-02-01T00:00:00.000Z'',
          [(''email'', JNum (Infinity False)), (''password'', JStr ''y''),
           (''name'', JStr ''C'')]),
         (''u3'', ''2024-02-02T00:00:00.000Z'',
          [(''email'', JNum (Infinity False)), (''password'', JStr ''y''),
           (''name'', JStr ''C'')])])
     = [JStr ''a@b.com'', JNull, JNull]"
  by (simp add: signup_def Let_def demo_store_def get_prop_def emails_def parse_def)

text \<open>
  C5, amended. A signup with truthy \<^verbatim>\<open>email\<close>, \<^verbatim>\<open>password\<close> and \<^verbatim>\<open>name\<close> whose
  email is not among the stored ones replies 200 with exactly \<^verbatim>\<open>id\<close>, \<^verbatim>\<open>email\<close> and
  \<^verbatim>\<open>name\<close> (no password) and appends the user. When the email is neither an array nor
  an object nor a number too large for a double and is among the stored ones, the reply
  is 400 with \<^verbatim>\<open>{error: "Email exists"}\<close> and the store is unchanged. Starting from
  stored emails that are pairwise different, any sequence of signups with such emails
  ends with stored emails that are pairwise different.
\<close>

theorem signup_unique_email:
  "(truthy (get_prop body ''email'') \<and> truthy (get_prop body ''password'')
      \<and> truthy (get_prop body ''name'')
      \<and> get_prop body ''email'' \<notin> set (map parse (emails st))
    \<longrightarrow> signup st nid now body =
          (Reply 200 (JObj [(''id'', JStr nid), (''email'', written (get_prop body ''email'')),
                            (''name'', written (get_prop body ''name''))]),
           st\<lparr>users := users st @
                [[(''id'', JStr nid), (''email'', written (get_prop body ''email'')),
                  (''password'', written (get_prop body ''password'')),
                  (''name'', written (get_prop body ''name'')), (''createdAt'', JStr now)]]\<rparr>))
   \<and> (truthy (get_prop body ''email'') \<and> truthy (get_prop body ''password'')
      \<and> truthy (get_prop body ''name'') \<and> plain (get_prop body ''email'')
      \<and> get_prop body ''email'' \<in> set (map parse (emails st))
    \<longrightarrow> signup st nid now body = (Reply 400 (error_body ''Email exists''), st))
   \<and> (distinct (emails st)
      \<and> list_all (\<lambda>(nid, now, b). plain (get_prop b ''email'')) reqs
    \<longrightarrow> distinct (emails (signups st reqs)))"
proof (intro conjI impI)
  assume a: "truthy (get_prop body ''email'') \<and> truthy (get_prop body ''password'')
      \<and> truthy (get_prop body ''name'')
      \<and> get_prop body ''email'' \<notin> set (map parse (emails st))"
  then have "find (\<lambda>u. strict_eq (parse (get_prop u ''email'')) (get_prop body ''email''))
      (users st) = None"
    by (simp add: find_email_None)
  with a show "signup st nid now body =
          (Reply 200 (JObj [(''id'', JStr nid), (''email'', written (get_prop body ''email'')),
                            (''name'', written (get_prop body ''name''))]),
           st\<lparr>users := users st @
                [[(''id'', JStr nid), (''email'', written (get_prop body ''email'')),
                  (''password'', written (get_prop body ''password'')),
                  (''name'', written (get_prop body ''name'')), (''createdAt'', JStr now)]]\<rparr>)"
    by (simp add: signup_fresh)
next
  assume a: "truthy (get_prop body ''email'') \<and> truthy (get_prop body ''password'')
      \<and> truthy (get_prop body ''name'') \<and> plain (get_prop body ''email'')
      \<and> get_prop body ''email'' \<in> set (map parse (emails st))"
  then obtain u where
    "find (\<lambda>u. strict_eq (parse (get_prop u ''email'')) (get_prop body ''email'')) (users st)
       = Some u"
    using find_email_Some by blast
  with a show "signup st nid now body = (Reply 400 (error_body ''Email exists''), st)"
    by (simp add: signup_taken)
next
  assume "distinct (emails st)
      \<and> list_all (\<lambda>(nid, now, b). plain (get_prop b ''email'')) reqs"
  then show "distinct (emails (signups st reqs))"
    by (simp add: signups_keep_emails_distinct)
qed

theorem signup_unique_email_witness:
  "signup demo_store ''u2'' ''2024-02-01T00:00:00.000Z''
      [(''email'', JStr ''a@b.com''), (''password'', JStr ''x''), (''name'', JStr ''A'')]
     = (Reply 400 (error_body ''Email exists''), demo_store)
   \<and> distinct (emails (signups demo_store
        [(''u2'', ''2024-02-01T00:00:00.000Z'',
          [(''email'', JStr ''c@d.com''), (''password'', JStr ''y''), (''name'', JStr ''C'')]),
         (''u3'', ''2024-02-02T00:00:00.000Z'',
          [(''email'', JStr ''c@d.com''), (''password'', JStr ''z''), (''name'', JStr ''D'')])]))"
proof -
  let ?b = "[(''email'', JStr ''a@b.com''), (''password'', JStr ''x''), (''name'', JStr ''A'')]"
  let ?reqs = "[(''u2'', ''2024-02-01T00:00:00.000Z'',
          [(''email'', JStr ''c@d.com''), (''password'', JStr ''y''), (''name'', JStr ''C'')]),
         (''u3'', ''2024-02-02T00:00:00.000Z'',
          [(''email'', JStr ''c@d.com''), (''password'', JStr ''z''), (''name'', JStr ''D'')])]"
  note t = signup_unique_email [where body = ?b and st = demo_store and nid = "''u2''"
      and now = "''2024-02-01T00:00:00.000Z''" and reqs = ?reqs]
  have h1: "truthy (get_prop ?b ''email'') \<and> truthy (get_prop ?b ''password'')
      \<and> truthy (get_prop ?b ''name'') \<and> plain (get_prop ?b ''email'')
      \<and> get_prop ?b ''email'' \<in> set (map parse (emails demo_store))"
    by (simp add: get_prop_def emails_def demo_store_def parse_def)
  have h2: "distinct (emails demo_store)
      \<and> list_all (\<lambda>(nid, now, b). plain (get_prop b ''email'')) ?reqs"
    by (simp add: get_prop_def emails_def demo_store_def)
  from t [THEN conjunct2, THEN conjunct1, THEN mp, OF h1]
       t [THEN conjunct2, THEN conjunct2, THEN mp, OF h2]
  show ?thesis by (rule conjI)
qed

end
